theory Spec2Isabelle
  imports Complex_Main
begin

section \<open>Values, errors and Python list slicing\<close>

text \<open>
  The module stores open dictionaries (\<^verbatim>\<open>Dict[str, Any]\<close>). A dictionary is a map
  from its string keys; the values that occur in the module are strings, integers,
  booleans and \<^verbatim>\<open>None\<close>. Logging calls are a side channel and are left out.
\<close>

datatype pyval = PStr string | PInt int | PBool bool | PNone

type_synonym pydict = "string \<rightharpoonup> pyval"

datatype error = IndexError | KeyError string | TypeError | ToolFailure string

text \<open>
  \<^verbatim>\<open>xs[start:]\<close>: a negative start counts from the end and is clamped at the
  beginning of the list, a non-negative one is clamped at its end.
\<close>

definition slice_from :: "'a list \<Rightarrow> int \<Rightarrow> 'a list" where
  "slice_from xs start =
     (let n = int (length xs);
          s = (if start < 0 then max 0 (n + start) else min start n)
      in drop (nat s) xs)"

text \<open>\<^verbatim>\<open>d[key]\<close> raises KeyError on a missing key; \<^verbatim>\<open>d.get(key, default)\<close> does not.\<close>

definition getitem :: "pydict \<Rightarrow> string \<Rightarrow> error + pyval" where
  "getitem d k = (case d k of None \<Rightarrow> Inl (KeyError k) | Some v \<Rightarrow> Inr v)"

definition dict_get :: "pydict \<Rightarrow> string \<Rightarrow> pyval \<Rightarrow> pyval" where
  "dict_get d k dflt = (case d k of None \<Rightarrow> dflt | Some v \<Rightarrow> v)"

text \<open>\<^verbatim>\<open>sep.join(items)\<close> raises TypeError when an item is not a string.\<close>

fun as_strs :: "pyval list \<Rightarrow> error + string list" where
  "as_strs [] = Inr []"
| "as_strs (PStr s # vs) = (case as_strs vs of Inl e \<Rightarrow> Inl e | Inr ss \<Rightarrow> Inr (s # ss))"
| "as_strs (v # vs) = Inl TypeError"

fun join_strs :: "string \<Rightarrow> string list \<Rightarrow> string" where
  "join_strs sep [] = []"
| "join_strs sep [x] = x"
| "join_strs sep (x # y # ys) = x @ sep @ join_strs sep (y # ys)"

definition str_join :: "string \<Rightarrow> pyval list \<Rightarrow> error + string" where
  "str_join sep vs = (case as_strs vs of Inl e \<Rightarrow> Inl e | Inr ss \<Rightarrow> Inr (join_strs sep ss))"

section \<open>Session state and messages\<close>

datatype SessionState = ACTIVE | PAUSED | COMPLETED | FAILED

record AgentMessage =
  msg_agent_id :: string
  msg_content :: string
  msg_timestamp :: string
  message_type :: string
  metadata :: pydict

section \<open>MemoryBank\<close>

record MemoryBank =
  memory_store :: "string \<rightharpoonup> pydict list"

definition MemoryBank_init :: MemoryBank where
  "MemoryBank_init = \<lparr>memory_store = Map.empty\<rparr>"

text \<open>
  \<open>store_interaction\<close> reads the wall clock. The string that
  \<^verbatim>\<open>datetime.now().isoformat()\<close> returns at the call is the extra argument \<open>ts\<close>.
  The dictionary display \<^verbatim>\<open>{**interaction, 'timestamp': ts}\<close> overrides a
  \<^verbatim>\<open>'timestamp'\<close> key of the caller.
\<close>

definition store_interaction :: "MemoryBank \<Rightarrow> string \<Rightarrow> pydict \<Rightarrow> string \<Rightarrow> MemoryBank" where
  "store_interaction mb session_id interaction ts =
     (let store1 = (case memory_store mb session_id of
                      None \<Rightarrow> (memory_store mb)(session_id \<mapsto> [])
                    | Some _ \<Rightarrow> memory_store mb);
          old = (case store1 session_id of None \<Rightarrow> [] | Some xs \<Rightarrow> xs)
      in mb\<lparr>memory_store := store1(session_id \<mapsto> old @ [interaction(''timestamp'' \<mapsto> PStr ts)])\<rparr>)"

definition retrieve_session_memory :: "MemoryBank \<Rightarrow> string \<Rightarrow> int \<Rightarrow> pydict list" where
  "retrieve_session_memory mb session_id limit =
     (case memory_store mb session_id of
        None \<Rightarrow> []
      | Some xs \<Rightarrow> slice_from xs (- limit))"

text \<open>
  \<open>compact_context\<close> calls \<open>retrieve_session_memory\<close> without a limit, so with the
  default 10. The entries of the dictionary display are evaluated in source order.
\<close>

definition compact_context :: "MemoryBank \<Rightarrow> string \<Rightarrow> error + pydict" where
  "compact_context mb session_id =
     (let memory = retrieve_session_memory mb session_id 10 in
      case memory of
        [] \<Rightarrow> Inr Map.empty
      | m0 # _ \<Rightarrow>
         (case getitem m0 ''timestamp'' of
            Inl e \<Rightarrow> Inl e
          | Inr first_ts \<Rightarrow>
             (case getitem (last memory) ''timestamp'' of
                Inl e \<Rightarrow> Inl e
              | Inr last_ts \<Rightarrow>
                 (case str_join '' | ''
                         (map (\<lambda>m. dict_get m ''summary'' (PStr [])) (slice_from memory (- 3))) of
                    Inl e \<Rightarrow> Inl e
                  | Inr summary \<Rightarrow>
                      Inr [''session_id'' \<mapsto> PStr session_id,
                           ''interaction_count'' \<mapsto> PInt (int (length memory)),
                           ''first_interaction'' \<mapsto> first_ts,
                           ''last_interaction'' \<mapsto> last_ts,
                           ''recent_summary'' \<mapsto> PStr summary]))))"

text \<open>A caller making a sequence of \<open>store_interaction\<close> calls, each with its clock reading.\<close>

fun store_interactions :: "MemoryBank \<Rightarrow> (string \<times> pydict \<times> string) list \<Rightarrow> MemoryBank" where
  "store_interactions mb [] = mb"
| "store_interactions mb ((sid, interaction, ts) # calls) =
     store_interactions (store_interaction mb sid interaction ts) calls"

text \<open>The entries that the calls of a list make for one session, in call order.\<close>

fun stored_for :: "string \<Rightarrow> (string \<times> pydict \<times> string) list \<Rightarrow> pydict list" where
  "stored_for s [] = []"
| "stored_for s ((sid, interaction, ts) # calls) =
     (if sid = s then interaction(''timestamp'' \<mapsto> PStr ts) # stored_for s calls
      else stored_for s calls)"

definition entries :: "MemoryBank \<Rightarrow> string \<Rightarrow> pydict list" where
  "entries mb s = (case memory_store mb s of None \<Rightarrow> [] | Some xs \<Rightarrow> xs)"

section \<open>Tools, clock and the record of tool invocations\<close>

text \<open>
  The three \<open>CustomTools\<close> operations are simulated in the module and replaced by
  stubs in tests, so the operations that agents call are parameters (\<open>platform\<close>):
  each returns its result or raises, and a stub may answer differently from call to
  call, so each sees the tool invocations made before it. \<open>tool_search_suspends\<close>
  says whether the search operation yields to the event loop before it finishes, as the
  shipped one does in
  \<^verbatim>\<open>await asyncio.sleep(0.5)\<close>. \<open>now_iso n\<close> is the string that the \<open>n\<close>-th call of
  \<^verbatim>\<open>datetime.now().isoformat()\<close> returns.
\<close>

record search_result =
  found :: bool
  results :: "string list"
  confidence :: rat

record ticket_result =
  ticket_id :: string
  status :: string

datatype tool_call = SearchCall string | NotifyCall string string | TicketCall string string

record platform =
  now_iso :: "nat \<Rightarrow> string"
  tool_search :: "tool_call list \<Rightarrow> string \<Rightarrow> error + search_result"
  tool_search_suspends :: bool
  tool_create_ticket :: "tool_call list \<Rightarrow> string \<Rightarrow> string \<Rightarrow> error + ticket_result"

record env =
  clock :: nat
  tool_log :: "tool_call list"

definition datetime_now_isoformat :: "platform \<Rightarrow> env \<Rightarrow> string \<times> env" where
  "datetime_now_isoformat p e = (now_iso p (clock e), e\<lparr>clock := Suc (clock e)\<rparr>)"

text \<open>The shipped tools. \<open>hex\<close> is the hexadecimal form of the fresh UUID.\<close>

definition search_knowledge_base :: "string \<Rightarrow> error + search_result" where
  "search_knowledge_base query =
     Inr \<lparr>found = True, results = [''Result for '' @ query], confidence = 85 / 100\<rparr>"

definition create_ticket :: "string \<Rightarrow> string \<Rightarrow> string \<Rightarrow> error + ticket_result" where
  "create_ticket hex issue priority =
     Inr \<lparr>ticket_id = ''TKT-'' @ take 8 hex, status = ''created''\<rparr>"

section \<open>Agent\<close>

text \<open>
  Every agent holds a reference to the one MemoryBank of the system that created it;
  the bank is therefore threaded through the operations, next to \<open>env\<close>.
  \<open>Agent_init\<close> takes the fresh UUID string as \<open>sid\<close>.
\<close>

record Agent =
  agent_id :: string
  role :: string
  agent_session_id :: string
  agent_state :: SessionState

definition Agent_init :: "string \<Rightarrow> string \<Rightarrow> string \<Rightarrow> Agent" where
  "Agent_init aid r sid =
     \<lparr>agent_id = aid, role = r, agent_session_id = sid, agent_state = ACTIVE\<rparr>"

text \<open>
  \<open>process_query\<close> up to its only await: the query interaction is stored and the search
  tool is invoked. The outcome of the tool is handed to the second half.
\<close>

definition process_query_to_await ::
  "platform \<Rightarrow> Agent \<Rightarrow> string \<Rightarrow> MemoryBank \<Rightarrow> env \<Rightarrow> (error + search_result) \<times> MemoryBank \<times> env" where
  "process_query_to_await p a query mb e =
     (let (ts, e1) = datetime_now_isoformat p e;
          mb1 = store_interaction mb (agent_session_id a)
                  [''agent'' \<mapsto> PStr (agent_id a), ''query'' \<mapsto> PStr query, ''role'' \<mapsto> PStr (role a)] ts;
          e2 = e1\<lparr>tool_log := tool_log e1 @ [SearchCall query]\<rparr>
      in (tool_search p (tool_log e1) query, mb1, e2))"

text \<open>
  \<open>process_query\<close> after the await: an error of the tool propagates,
  \<^verbatim>\<open>result['results'][0]\<close> raises IndexError on an empty list, otherwise the response
  is built, stored and returned.
\<close>

definition process_query_after_await ::
  "platform \<Rightarrow> Agent \<Rightarrow> error + search_result \<Rightarrow> MemoryBank \<Rightarrow> env \<Rightarrow> (error + string) \<times> MemoryBank \<times> env" where
  "process_query_after_await p a outcome mb e =
     (case outcome of
        Inl err \<Rightarrow> (Inl err, mb, e)
      | Inr result \<Rightarrow>
         (case results result of
            [] \<Rightarrow> (Inl IndexError, mb, e)
          | top_result # _ \<Rightarrow>
             (let response = ''['' @ role a @ ''] Found response: '' @ top_result;
                  (ts, e1) = datetime_now_isoformat p e;
                  mb1 = store_interaction mb (agent_session_id a)
                          [''agent'' \<mapsto> PStr (agent_id a), ''response'' \<mapsto> PStr response,
                           ''tool_used'' \<mapsto> PStr ''search_knowledge_base''] ts
              in (Inr response, mb1, e1))))"

definition process_query ::
  "platform \<Rightarrow> Agent \<Rightarrow> string \<Rightarrow> MemoryBank \<Rightarrow> env \<Rightarrow> (error + string) \<times> MemoryBank \<times> env" where
  "process_query p a query mb e =
     (let (outcome, mb1, e1) = process_query_to_await p a query mb e
      in process_query_after_await p a outcome mb1 e1)"

definition pause_execution :: "Agent \<Rightarrow> Agent" where
  "pause_execution a = a\<lparr>agent_state := PAUSED\<rparr>"

definition resume_execution :: "Agent \<Rightarrow> Agent" where
  "resume_execution a = a\<lparr>agent_state := ACTIVE\<rparr>"

section \<open>CustomerSupportMultiAgentSystem\<close>

record CustomerSupportMultiAgentSystem =
  memory_bank :: MemoryBank
  session_id :: string
  state :: SessionState
  routing_agent :: Agent
  support_agent :: Agent
  escalation_agent :: Agent

text \<open>The constructor; its four arguments are the fresh UUID strings, in creation order.\<close>

definition CustomerSupportMultiAgentSystem_init ::
  "string \<Rightarrow> string \<Rightarrow> string \<Rightarrow> string \<Rightarrow> CustomerSupportMultiAgentSystem" where
  "CustomerSupportMultiAgentSystem_init sid rid suid eid =
     \<lparr>memory_bank = MemoryBank_init, session_id = sid, state = ACTIVE,
      routing_agent = Agent_init ''router-001'' ''Issue Router'' rid,
      support_agent = Agent_init ''support-001'' ''Technical Support'' suid,
      escalation_agent = Agent_init ''escalate-001'' ''Escalation Handler'' eid\<rparr>"

text \<open>
  \<^verbatim>\<open>asyncio.gather(c1, c2, return_exceptions=True)\<close> on two \<open>process_query\<close>
  coroutines, on the single-threaded event loop: the tasks start in argument order and
  each runs until it suspends. With a search tool that suspends, both first halves run
  before either second half; with one that does not, the first task finishes before the
  second starts. An exception of a task becomes the value of its slot.
\<close>

definition gather_process_query ::
  "platform \<Rightarrow> Agent \<Rightarrow> string \<Rightarrow> Agent \<Rightarrow> string \<Rightarrow> MemoryBank \<Rightarrow> env
     \<Rightarrow> ((error + string) \<times> (error + string)) \<times> MemoryBank \<times> env" where
  "gather_process_query p a0 q0 a1 q1 mb e =
     (if tool_search_suspends p then
        (let (o0, mb1, e1) = process_query_to_await p a0 q0 mb e;
             (o1, mb2, e2) = process_query_to_await p a1 q1 mb1 e1;
             (r0, mb3, e3) = process_query_after_await p a0 o0 mb2 e2;
             (r1, mb4, e4) = process_query_after_await p a1 o1 mb3 e3
         in ((r0, r1), mb4, e4))
      else
        (let (r0, mb1, e1) = process_query p a0 q0 mb e;
             (r1, mb2, e2) = process_query p a1 q1 mb1 e1
         in ((r0, r1), mb2, e2)))"

record envelope =
  envelope_session_id :: string
  routing_response :: "error + string"
  support_response :: "error + string"
  timestamp :: string

definition process_customer_request ::
  "platform \<Rightarrow> CustomerSupportMultiAgentSystem \<Rightarrow> string \<Rightarrow> env
     \<Rightarrow> envelope \<times> CustomerSupportMultiAgentSystem \<times> env" where
  "process_customer_request p sys customer_query e =
     (let (rs, mb1, e1) = gather_process_query p (routing_agent sys) customer_query
                            (support_agent sys) customer_query (memory_bank sys) e;
          (ts, e2) = datetime_now_isoformat p e1
      in (\<lparr>envelope_session_id = session_id sys, routing_response = fst rs,
           support_response = snd rs, timestamp = ts\<rparr>,
          sys\<lparr>memory_bank := mb1\<rparr>, e2))"

record escalation_result =
  routing :: string
  support :: string
  escalation :: string
  ticket :: ticket_result

text \<open>The sequential pipeline: no stage catches, so the first error ends the call.\<close>

definition handle_complex_escalation ::
  "platform \<Rightarrow> CustomerSupportMultiAgentSystem \<Rightarrow> string \<Rightarrow> env
     \<Rightarrow> (error + escalation_result) \<times> CustomerSupportMultiAgentSystem \<times> env" where
  "handle_complex_escalation p sys issue e =
     (case process_query p (routing_agent sys) issue (memory_bank sys) e of
        (Inl err, mb1, e1) \<Rightarrow> (Inl err, sys\<lparr>memory_bank := mb1\<rparr>, e1)
      | (Inr route_result, mb1, e1) \<Rightarrow>
     (case process_query p (support_agent sys) (''Escalated: '' @ issue) mb1 e1 of
        (Inl err, mb2, e2) \<Rightarrow> (Inl err, sys\<lparr>memory_bank := mb2\<rparr>, e2)
      | (Inr support_result, mb2, e2) \<Rightarrow>
     (case process_query p (escalation_agent sys) (''Escalation needed: '' @ issue) mb2 e2 of
        (Inl err, mb3, e3) \<Rightarrow> (Inl err, sys\<lparr>memory_bank := mb3\<rparr>, e3)
      | (Inr escalation_result, mb3, e3) \<Rightarrow>
     (let e4 = e3\<lparr>tool_log := tool_log e3 @ [TicketCall issue ''high'']\<rparr>;
          sys3 = sys\<lparr>memory_bank := mb3\<rparr>
      in case tool_create_ticket p (tool_log e3) issue ''high'' of
           Inl err \<Rightarrow> (Inl err, sys3, e4)
         | Inr tkt \<Rightarrow>
             (Inr \<lparr>routing = route_result, support = support_result,
                   escalation = escalation_result, ticket = tkt\<rparr>, sys3, e4)))))"

text \<open>
  The loop over \<^verbatim>\<open>[routing_agent, support_agent, escalation_agent]\<close> is written
  out, in list order.
\<close>

definition pause_session :: "CustomerSupportMultiAgentSystem \<Rightarrow> CustomerSupportMultiAgentSystem" where
  "pause_session sys =
     (let s0 = sys\<lparr>state := PAUSED\<rparr>;
          s1 = s0\<lparr>routing_agent := pause_execution (routing_agent s0)\<rparr>;
          s2 = s1\<lparr>support_agent := pause_execution (support_agent s1)\<rparr>
      in s2\<lparr>escalation_agent := pause_execution (escalation_agent s2)\<rparr>)"

definition resume_session :: "CustomerSupportMultiAgentSystem \<Rightarrow> CustomerSupportMultiAgentSystem" where
  "resume_session sys =
     (let s0 = sys\<lparr>state := ACTIVE\<rparr>;
          s1 = s0\<lparr>routing_agent := resume_execution (routing_agent s0)\<rparr>;
          s2 = s1\<lparr>support_agent := resume_execution (support_agent s1)\<rparr>
      in s2\<lparr>escalation_agent := resume_execution (escalation_agent s2)\<rparr>)"

section \<open>Concrete tools, clocks and systems\<close>

definition example_now :: "nat \<Rightarrow> string" where
  "example_now n = ''T'' @ replicate n (CHR ''+'')"

definition env0 :: env where
  "env0 = \<lparr>clock = 0, tool_log = []\<rparr>"

definition shipped_platform :: platform where
  "shipped_platform =
     \<lparr>now_iso = example_now,
      tool_search = (\<lambda>prior. search_knowledge_base),
      tool_search_suspends = True,
      tool_create_ticket = (\<lambda>prior. create_ticket ''0123456789abcdef0123456789abcdef'')\<rparr>"

definition stub_search_kb1 :: "tool_call list \<Rightarrow> string \<Rightarrow> error + search_result" where
  "stub_search_kb1 prior query =
     Inr \<lparr>found = True, results = [''KB#1''], confidence = 85 / 100\<rparr>"

definition stub_search_not_found :: "tool_call list \<Rightarrow> string \<Rightarrow> error + search_result" where
  "stub_search_not_found prior query = Inr \<lparr>found = False, results = [], confidence = 0\<rparr>"

text \<open>A search stub that works for its first \<open>n\<close> invocations and times out afterwards.\<close>

definition stub_search_fails_after :: "nat \<Rightarrow> tool_call list \<Rightarrow> string \<Rightarrow> error + search_result" where
  "stub_search_fails_after n prior query =
     (if length prior < n then search_knowledge_base query else Inl (ToolFailure ''timeout''))"

definition example_system :: CustomerSupportMultiAgentSystem where
  "example_system = CustomerSupportMultiAgentSystem_init ''sess-0'' ''sess-r'' ''sess-s'' ''sess-e''"

definition two_calls :: "(string \<times> pydict \<times> string) list" where
  "two_calls = [(''s'', [''query'' \<mapsto> PStr ''hello''], ''T1''),
                (''s'', [''response'' \<mapsto> PStr ''hi''], ''T2'')]"

definition eleven_calls :: "(string \<times> pydict \<times> string) list" where
  "eleven_calls = replicate 11 (''s'', [''summary'' \<mapsto> PStr ''x''], ''T1'')"

definition flaky_platform :: platform where
  "flaky_platform = shipped_platform\<lparr>tool_search := stub_search_fails_after 1\<rparr>"

definition not_found_platform :: platform where
  "not_found_platform = shipped_platform\<lparr>tool_search := stub_search_not_found\<rparr>"

section \<open>Properties of the MemoryBank\<close>

lemma slice_from_Nil: "slice_from [] i = []"
  by (simp add: slice_from_def)

lemma slice_from_zero: "slice_from xs 0 = xs"
  by (simp add: slice_from_def)

lemma slice_from_neg:
  "0 < k \<Longrightarrow> slice_from xs (- k) = drop (length xs - nat k) xs"
  by (simp add: slice_from_def Let_def max_def) (auto simp: nat_diff_distrib')

lemma retrieve_entries:
  "retrieve_session_memory mb s limit = slice_from (entries mb s) (- limit)"
  by (simp add: retrieve_session_memory_def entries_def slice_from_Nil split: option.splits)

lemma entries_store_interaction:
  "entries (store_interaction mb sid i ts) s =
     (if sid = s then entries mb s @ [i(''timestamp'' \<mapsto> PStr ts)] else entries mb s)"
  by (simp add: entries_def store_interaction_def Let_def split: option.splits)

lemma entries_store_interactions:
  "entries (store_interactions mb calls) s = entries mb s @ stored_for s calls"
  by (induction calls arbitrary: mb) (auto simp: entries_store_interaction)

lemma entries_init: "entries MemoryBank_init s = []"
  by (simp add: entries_def MemoryBank_init_def)

lemma retrieve_positive_limit:
  "0 < limit \<Longrightarrow>
     retrieve_session_memory mb s limit
       = drop (length (entries mb s) - nat limit) (entries mb s)"
  by (simp add: retrieve_entries slice_from_neg)

lemma retrieve_limit_above_count:
  "int (length (entries mb s)) < limit \<Longrightarrow>
     retrieve_session_memory mb s limit = entries mb s"
  by (simp add: retrieve_entries slice_from_def)

lemma retrieve_length:
  "length (retrieve_session_memory mb s 10) = min 10 (length (entries mb s))"
  by (simp add: retrieve_entries slice_from_def Let_def)

lemma compact_context_interaction_count:
  "compact_context mb s = Inr m \<Longrightarrow> entries mb s \<noteq> [] \<Longrightarrow>
     m ''interaction_count'' = Some (PInt (int (min 10 (length (entries mb s)))))"
proof -
  assume c: "compact_context mb s = Inr m" and ne: "entries mb s \<noteq> []"
  have len: "length (retrieve_session_memory mb s 10) = min 10 (length (entries mb s))"
    by (rule retrieve_length)
  with ne have "retrieve_session_memory mb s 10 \<noteq> []"
    by (auto simp: min_def split: if_splits)
  with c len show ?thesis
    by (auto simp: compact_context_def Let_def split: list.splits sum.splits)
qed

lemma last_three_of_last_ten:
  "slice_from (retrieve_session_memory mb s 10) (- 3) = slice_from (entries mb s) (- 3)"
proof -
  let ?n = "length (entries mb s)"
  have "?n - (?n - 10) - 3 + (?n - 10) = ?n - 3"
    by arith
  then show ?thesis
    by (simp add: retrieve_entries slice_from_neg)
qed

lemma compact_context_recent_summary:
  "compact_context mb s = Inr m \<Longrightarrow> entries mb s \<noteq> [] \<Longrightarrow>
     \<exists>ss. as_strs (map (\<lambda>d. dict_get d ''summary'' (PStr [])) (slice_from (entries mb s) (- 3)))
            = Inr ss
        \<and> m ''recent_summary'' = Some (PStr (join_strs '' | '' ss))"
proof -
  assume c: "compact_context mb s = Inr m" and ne: "entries mb s \<noteq> []"
  have "retrieve_session_memory mb s 10 \<noteq> []"
    using ne retrieve_length [of mb s] by (auto simp: min_def split: if_splits)
  then obtain m0 rest where r: "retrieve_session_memory mb s 10 = m0 # rest"
    by (cases "retrieve_session_memory mb s 10") auto
  have l3: "slice_from (m0 # rest) (- 3) = slice_from (entries mb s) (- 3)"
    using last_three_of_last_ten [of mb s] by (simp add: r)
  from c show ?thesis
    by (auto simp: compact_context_def r l3 Let_def str_join_def split: sum.splits)
qed

section \<open>Properties of process_query and of the gathered pair\<close>

lemma process_query_tool_error:
  "tool_search p (tool_log e) q = Inl err \<Longrightarrow>
     process_query p a q mb e =
       (Inl err,
        store_interaction mb (agent_session_id a)
          [''agent'' \<mapsto> PStr (agent_id a), ''query'' \<mapsto> PStr q, ''role'' \<mapsto> PStr (role a)]
          (now_iso p (clock e)),
        e\<lparr>clock := Suc (clock e), tool_log := tool_log e @ [SearchCall q]\<rparr>)"
  by (simp add: process_query_def process_query_to_await_def process_query_after_await_def
      datetime_now_isoformat_def)

lemma process_query_no_results:
  "tool_search p (tool_log e) q = Inr r \<Longrightarrow> results r = [] \<Longrightarrow>
     process_query p a q mb e =
       (Inl IndexError,
        store_interaction mb (agent_session_id a)
          [''agent'' \<mapsto> PStr (agent_id a), ''query'' \<mapsto> PStr q, ''role'' \<mapsto> PStr (role a)]
          (now_iso p (clock e)),
        e\<lparr>clock := Suc (clock e), tool_log := tool_log e @ [SearchCall q]\<rparr>)"
  by (simp add: process_query_def process_query_to_await_def process_query_after_await_def
      datetime_now_isoformat_def)

lemma process_query_found:
  "tool_search p (tool_log e) q = Inr r \<Longrightarrow> results r = t # ts \<Longrightarrow>
     process_query p a q mb e =
       (Inr (''['' @ role a @ ''] Found response: '' @ t),
        store_interaction
          (store_interaction mb (agent_session_id a)
             [''agent'' \<mapsto> PStr (agent_id a), ''query'' \<mapsto> PStr q, ''role'' \<mapsto> PStr (role a)]
             (now_iso p (clock e)))
          (agent_session_id a)
          [''agent'' \<mapsto> PStr (agent_id a),
           ''response'' \<mapsto> PStr (''['' @ role a @ ''] Found response: '' @ t),
           ''tool_used'' \<mapsto> PStr ''search_knowledge_base'']
          (now_iso p (Suc (clock e))),
        e\<lparr>clock := Suc (Suc (clock e)), tool_log := tool_log e @ [SearchCall q]\<rparr>)"
  by (simp add: process_query_def process_query_to_await_def process_query_after_await_def
      datetime_now_isoformat_def Let_def)

lemma process_query_tool_log:
  "tool_log (snd (snd (process_query p a q mb e))) = tool_log e @ [SearchCall q]"
  by (simp add: process_query_def process_query_to_await_def process_query_after_await_def
      datetime_now_isoformat_def Let_def split: sum.splits list.splits)

text \<open>What a call returns is decided by the tool invocations before it, the query and the role.\<close>

lemma process_query_value:
  "tool_log e' = tool_log e \<Longrightarrow>
     fst (process_query p a q mb' e') = fst (process_query p a q mb e)"
  by (simp add: process_query_def process_query_to_await_def process_query_after_await_def
      datetime_now_isoformat_def Let_def split: sum.splits list.splits)

lemma after_await_value:
  "fst (process_query_after_await p a out mb e) =
     (case out of Inl err \<Rightarrow> Inl err
      | Inr r \<Rightarrow> (case results r of [] \<Rightarrow> Inl IndexError
                  | t # _ \<Rightarrow> Inr (''['' @ role a @ ''] Found response: '' @ t)))"
  by (simp add: process_query_after_await_def datetime_now_isoformat_def Let_def
      split: sum.splits list.splits)

lemma after_await_tool_log:
  "tool_log (snd (snd (process_query_after_await p a out mb e))) = tool_log e"
  by (simp add: process_query_after_await_def datetime_now_isoformat_def Let_def
      split: sum.splits list.splits)

lemma gather_values:
  "fst (gather_process_query p a0 q0 a1 q1 mb e) =
     (fst (process_query p a0 q0 mb e),
      fst (process_query p a1 q1 mb (e\<lparr>tool_log := tool_log e @ [SearchCall q0]\<rparr>)))"
  by (simp add: gather_process_query_def process_query_def process_query_to_await_def
      after_await_value after_await_tool_log datetime_now_isoformat_def Let_def split_beta)

section \<open>The claims\<close>

text \<open>
  Claim C1 says that a limit of zero or less yields an empty sequence. The slice
  \<^verbatim>\<open>[-limit:]\<close> does not: with two entries stored for a session, limit 0 returns both
  of them and limit -1 returns one. (The other half of the claim, a limit above the stored
  count, is \<open>retrieve_limit_above_count\<close>.)
\<close>

theorem retrieve_limit_zero_returns_all:
  "retrieve_session_memory (store_interactions MemoryBank_init two_calls) ''s'' 0
     = stored_for ''s'' two_calls
   \<and> length (retrieve_session_memory (store_interactions MemoryBank_init two_calls) ''s'' 0) = 2
   \<and> length (retrieve_session_memory (store_interactions MemoryBank_init two_calls) ''s'' (- 1)) = 1"
proof -
  have xs: "stored_for ''s'' two_calls =
      [[''query'' \<mapsto> PStr ''hello'', ''timestamp'' \<mapsto> PStr ''T1''],
       [''response'' \<mapsto> PStr ''hi'', ''timestamp'' \<mapsto> PStr ''T2'']]"
    by (simp add: two_calls_def)
  have e: "entries (store_interactions MemoryBank_init two_calls) ''s'' = stored_for ''s'' two_calls"
    by (simp add: entries_store_interactions entries_init)
  show ?thesis
    by (simp add: retrieve_entries e xs slice_from_def)
qed

text \<open>
  Claim C2 says that \<open>interaction_count\<close> is the number of entries stored for the
  session. \<open>compact_context\<close> reads the session through the default limit of
  \<open>retrieve_session_memory\<close>: with eleven entries stored it reports ten. (The summary of
  the last three entries is not affected: \<open>compact_context_recent_summary\<close>.)
\<close>

theorem compact_context_counts_at_most_ten:
  "length (entries (store_interactions MemoryBank_init eleven_calls) ''s'') = 11
   \<and> map_sum id (\<lambda>m. m ''interaction_count'')
        (compact_context (store_interactions MemoryBank_init eleven_calls) ''s'')
       = Inr (Some (PInt 10))"
proof -
  let ?x = "[''summary'' \<mapsto> PStr ''x'', ''timestamp'' \<mapsto> PStr ''T1'']"
  have xs: "stored_for ''s'' eleven_calls = replicate 11 ?x"
    by (simp add: eleven_calls_def eval_nat_numeral)
  have e: "entries (store_interactions MemoryBank_init eleven_calls) ''s'' = replicate 11 ?x"
    by (simp add: entries_store_interactions entries_init xs)
  have r: "retrieve_session_memory (store_interactions MemoryBank_init eleven_calls) ''s'' 10
             = replicate 10 ?x"
    by (simp add: retrieve_entries e slice_from_def eval_nat_numeral)
  show ?thesis
    by (simp add: e compact_context_def r slice_from_def getitem_def dict_get_def str_join_def
        eval_nat_numeral)
qed

text \<open>
  Claim C3 says that a paused agent performs no new work. \<open>process_query\<close> never reads
  the agent's SessionState: a paused agent answers the query, writes both interactions
  and calls the search tool.
\<close>

theorem paused_agent_processes_query:
  "agent_state (pause_execution (Agent_init ''router-001'' ''Issue Router'' ''sess-r'')) = PAUSED
   \<and> fst (process_query shipped_platform
          (pause_execution (Agent_init ''router-001'' ''Issue Router'' ''sess-r''))
          ''help'' MemoryBank_init env0)
     = Inr ''[Issue Router] Found response: Result for help''
   \<and> length (entries (fst (snd (process_query shipped_platform
          (pause_execution (Agent_init ''router-001'' ''Issue Router'' ''sess-r''))
          ''help'' MemoryBank_init env0))) ''sess-r'') = 2
   \<and> tool_log (snd (snd (process_query shipped_platform
          (pause_execution (Agent_init ''router-001'' ''Issue Router'' ''sess-r''))
          ''help'' MemoryBank_init env0))) = [SearchCall ''help'']"
  by (simp add: process_query_def process_query_to_await_def process_query_after_await_def
      datetime_now_isoformat_def shipped_platform_def search_knowledge_base_def
      entries_store_interaction entries_init pause_execution_def Agent_init_def env0_def Let_def)

text \<open>
  Claim C3, amended: \<open>pause_execution\<close> changes only the agent's SessionState, and
  \<open>process_query\<close> never reads it, so a paused agent does what an active one does: it
  appends the query interaction to its session, invokes the search tool once and, when
  the tool returns a result with a non-empty \<open>results\<close> list, appends the response
  interaction and returns the response. When the tool raises or the list is empty, the
  error is raised and nothing more is stored. No other session is touched.
\<close>

theorem process_query_ignores_state:
  "pause_execution a = a\<lparr>agent_state := PAUSED\<rparr>
   \<and> process_query p (pause_execution a) q mb e = process_query p a q mb e
   \<and> process_query p (a\<lparr>agent_state := st\<rparr>) q mb e = process_query p a q mb e
   \<and> tool_log (snd (snd (process_query p a q mb e))) = tool_log e @ [SearchCall q]
   \<and> fst (process_query p a q mb e) =
       (case tool_search p (tool_log e) q of
          Inl err \<Rightarrow> Inl err
        | Inr r \<Rightarrow>
           (case results r of
              [] \<Rightarrow> Inl IndexError
            | t # _ \<Rightarrow> Inr (''['' @ role a @ ''] Found response: '' @ t)))
   \<and> entries (fst (snd (process_query p a q mb e))) s =
       (if s = agent_session_id a then
          entries mb s
          @ [[''agent'' \<mapsto> PStr (agent_id a), ''query'' \<mapsto> PStr q, ''role'' \<mapsto> PStr (role a),
              ''timestamp'' \<mapsto> PStr (now_iso p (clock e))]]
          @ (case tool_search p (tool_log e) q of
               Inl err \<Rightarrow> []
             | Inr r \<Rightarrow>
                (case results r of
                   [] \<Rightarrow> []
                 | t # _ \<Rightarrow>
                    [[''agent'' \<mapsto> PStr (agent_id a),
                      ''response'' \<mapsto> PStr (''['' @ role a @ ''] Found response: '' @ t),
                      ''tool_used'' \<mapsto> PStr ''search_knowledge_base'',
                      ''timestamp'' \<mapsto> PStr (now_iso p (Suc (clock e)))]]))
        else entries mb s)"
proof -
  have same: "process_query p (a\<lparr>agent_state := st'\<rparr>) q mb e = process_query p a q mb e" for st'
    by (simp add: process_query_def process_query_to_await_def process_query_after_await_def
        Let_def split_beta cong: sum.case_cong list.case_cong)
  have pause: "pause_execution a = a\<lparr>agent_state := PAUSED\<rparr>"
    by (simp add: pause_execution_def)
  have paused: "process_query p (pause_execution a) q mb e = process_query p a q mb e"
    by (simp only: pause same)
  have tlog: "tool_log (snd (snd (process_query p a q mb e))) = tool_log e @ [SearchCall q]"
    by (rule process_query_tool_log)
  have val: "fst (process_query p a q mb e) =
       (case tool_search p (tool_log e) q of
          Inl err \<Rightarrow> Inl err
        | Inr r \<Rightarrow>
           (case results r of
              [] \<Rightarrow> Inl IndexError
            | t # _ \<Rightarrow> Inr (''['' @ role a @ ''] Found response: '' @ t)))"
  proof (cases "tool_search p (tool_log e) q")
    case (Inl err)
    show ?thesis
      by (simp add: process_query_tool_error [OF Inl] Inl)
  next
    case (Inr r)
    show ?thesis
    proof (cases "results r")
      case Nil
      show ?thesis
        by (simp add: process_query_no_results [OF Inr Nil] Inr Nil)
    next
      case (Cons t ts)
      show ?thesis
        by (simp add: process_query_found [OF Inr Cons] Inr Cons)
    qed
  qed
  have ent: "entries (fst (snd (process_query p a q mb e))) s =
       (if s = agent_session_id a then
          entries mb s
          @ [[''agent'' \<mapsto> PStr (agent_id a), ''query'' \<mapsto> PStr q, ''role'' \<mapsto> PStr (role a),
              ''timestamp'' \<mapsto> PStr (now_iso p (clock e))]]
          @ (case tool_search p (tool_log e) q of
               Inl err \<Rightarrow> []
             | Inr r \<Rightarrow>
                (case results r of
                   [] \<Rightarrow> []
                 | t # _ \<Rightarrow>
                    [[''agent'' \<mapsto> PStr (agent_id a),
                      ''response'' \<mapsto> PStr (''['' @ role a @ ''] Found response: '' @ t),
                      ''tool_used'' \<mapsto> PStr ''search_knowledge_base'',
                      ''timestamp'' \<mapsto> PStr (now_iso p (Suc (clock e)))]]))
        else entries mb s)"
  proof (cases "tool_search p (tool_log e) q")
    case (Inl err)
    show ?thesis
      by (simp add: process_query_tool_error [OF Inl] Inl entries_store_interaction)
  next
    case (Inr r)
    show ?thesis
    proof (cases "results r")
      case Nil
      show ?thesis
        by (simp add: process_query_no_results [OF Inr Nil] Inr Nil entries_store_interaction)
    next
      case (Cons t ts)
      show ?thesis
        by (simp add: process_query_found [OF Inr Cons] Inr Cons entries_store_interaction)
    qed
  qed
  from pause paused same tlog val ent show ?thesis
    by (intro conjI)
qed

text \<open>A paused router agent with the shipped search tool: both interactions are stored.\<close>

theorem process_query_ignores_state_witness:
  "process_query shipped_platform
       (pause_execution (Agent_init ''router-001'' ''Issue Router'' ''sess-r''))
       ''help'' MemoryBank_init env0
     = process_query shipped_platform (Agent_init ''router-001'' ''Issue Router'' ''sess-r'')
         ''help'' MemoryBank_init env0
   \<and> entries (fst (snd (process_query shipped_platform
          (pause_execution (Agent_init ''router-001'' ''Issue Router'' ''sess-r''))
          ''help'' MemoryBank_init env0))) ''sess-r''
     = [[''agent'' \<mapsto> PStr ''router-001'', ''query'' \<mapsto> PStr ''help'',
         ''role'' \<mapsto> PStr ''Issue Router'', ''timestamp'' \<mapsto> PStr ''T''],
        [''agent'' \<mapsto> PStr ''router-001'',
         ''response'' \<mapsto> PStr ''[Issue Router] Found response: Result for help'',
         ''tool_used'' \<mapsto> PStr ''search_knowledge_base'', ''timestamp'' \<mapsto> PStr ''T+'']]"
  using process_query_ignores_state [of "Agent_init ''router-001'' ''Issue Router'' ''sess-r''"
      shipped_platform "''help''" MemoryBank_init env0 PAUSED "''sess-r''"]
  by (simp add: shipped_platform_def search_knowledge_base_def Agent_init_def entries_init
      example_now_def env0_def)

text \<open>
  Claim C4: \<open>process_customer_request\<close> always returns an envelope (it has no error
  result), and each slot holds what that agent's \<open>process_query\<close> returns, value or
  captured error, whatever the other agent's call does. The router's call is the first
  tool invocation of the request and the support agent's the second.
\<close>

theorem gather_isolates_failures:
  "tool_log e1 = tool_log e @ [SearchCall q] \<Longrightarrow>
     routing_response (fst (process_customer_request p sys q e))
       = fst (process_query p (routing_agent sys) q (memory_bank sys) e)
     \<and> support_response (fst (process_customer_request p sys q e))
       = fst (process_query p (support_agent sys) q mb1 e1)"
proof -
  assume l: "tool_log e1 = tool_log e @ [SearchCall q]"
  have "fst (process_query p (support_agent sys) q mb1 e1)
          = fst (process_query p (support_agent sys) q (memory_bank sys)
                   (e\<lparr>tool_log := tool_log e @ [SearchCall q]\<rparr>))"
    by (rule process_query_value) (simp add: l)
  then show ?thesis
    by (simp add: process_customer_request_def gather_values split_beta Let_def)
qed

text \<open>The router succeeds and the support agent's search times out.\<close>

theorem gather_isolates_failures_witness:
  "routing_response (fst (process_customer_request flaky_platform example_system ''billing issue'' env0))
     = Inr ''[Issue Router] Found response: Result for billing issue''
   \<and> support_response (fst (process_customer_request flaky_platform example_system ''billing issue'' env0))
     = Inl (ToolFailure ''timeout'')"
  using gather_isolates_failures [of "env0\<lparr>tool_log := [SearchCall ''billing issue'']\<rparr>" env0
      "''billing issue''" flaky_platform example_system MemoryBank_init]
  by (simp add: process_query_def process_query_to_await_def process_query_after_await_def
      datetime_now_isoformat_def Let_def flaky_platform_def shipped_platform_def
      stub_search_fails_after_def search_knowledge_base_def example_system_def
      CustomerSupportMultiAgentSystem_init_def Agent_init_def env0_def)

text \<open>
  Claim C5: when a stage of \<open>handle_complex_escalation\<close> raises, the call raises the same
  error and ends in the state that the failing stage left: no later stage runs, and the
  tool invocations made are the searches of the stages up to the failing one, so
  \<open>create_ticket\<close> is not among them. The second conjunct is the support stage.
\<close>

theorem escalation_fails_fast:
  "(process_query p (routing_agent sys) issue (memory_bank sys) e = (Inl err, mb1, e1) \<longrightarrow>
      handle_complex_escalation p sys issue e = (Inl err, sys\<lparr>memory_bank := mb1\<rparr>, e1)
      \<and> tool_log e1 = tool_log e @ [SearchCall issue])
   \<and> (process_query p (routing_agent sys) issue (memory_bank sys) e = (Inr r0, mb1, e1)
      \<and> process_query p (support_agent sys) (''Escalated: '' @ issue) mb1 e1 = (Inl err, mb2, e2) \<longrightarrow>
      handle_complex_escalation p sys issue e = (Inl err, sys\<lparr>memory_bank := mb2\<rparr>, e2)
      \<and> tool_log e2 = tool_log e @ [SearchCall issue, SearchCall (''Escalated: '' @ issue)])
   \<and> (process_query p (routing_agent sys) issue (memory_bank sys) e = (Inr r0, mb1, e1)
      \<and> process_query p (support_agent sys) (''Escalated: '' @ issue) mb1 e1 = (Inr r1, mb2, e2)
      \<and> process_query p (escalation_agent sys) (''Escalation needed: '' @ issue) mb2 e2 = (Inl err, mb3, e3) \<longrightarrow>
      handle_complex_escalation p sys issue e = (Inl err, sys\<lparr>memory_bank := mb3\<rparr>, e3)
      \<and> tool_log e3 = tool_log e @ [SearchCall issue, SearchCall (''Escalated: '' @ issue),
                                     SearchCall (''Escalation needed: '' @ issue)])"
proof (intro conjI impI)
  assume h: "process_query p (routing_agent sys) issue (memory_bank sys) e = (Inl err, mb1, e1)"
  show "handle_complex_escalation p sys issue e = (Inl err, sys\<lparr>memory_bank := mb1\<rparr>, e1)"
    using h by (simp add: handle_complex_escalation_def)
  show "tool_log e1 = tool_log e @ [SearchCall issue]"
    using process_query_tool_log [of p "routing_agent sys" issue "memory_bank sys" e] h
    by simp
next
  assume h: "process_query p (routing_agent sys) issue (memory_bank sys) e = (Inr r0, mb1, e1)
      \<and> process_query p (support_agent sys) (''Escalated: '' @ issue) mb1 e1 = (Inl err, mb2, e2)"
  show "handle_complex_escalation p sys issue e = (Inl err, sys\<lparr>memory_bank := mb2\<rparr>, e2)"
    using h by (simp add: handle_complex_escalation_def)
  show "tool_log e2 = tool_log e @ [SearchCall issue, SearchCall (''Escalated: '' @ issue)]"
    using process_query_tool_log [of p "routing_agent sys" issue "memory_bank sys" e]
      process_query_tool_log [of p "support_agent sys" "''Escalated: '' @ issue" mb1 e1] h
    by simp
next
  assume h: "process_query p (routing_agent sys) issue (memory_bank sys) e = (Inr r0, mb1, e1)
      \<and> process_query p (support_agent sys) (''Escalated: '' @ issue) mb1 e1 = (Inr r1, mb2, e2)
      \<and> process_query p (escalation_agent sys) (''Escalation needed: '' @ issue) mb2 e2 = (Inl err, mb3, e3)"
  show "handle_complex_escalation p sys issue e = (Inl err, sys\<lparr>memory_bank := mb3\<rparr>, e3)"
    using h by (simp add: handle_complex_escalation_def)
  show "tool_log e3 = tool_log e @ [SearchCall issue, SearchCall (''Escalated: '' @ issue),
                                     SearchCall (''Escalation needed: '' @ issue)]"
    using process_query_tool_log [of p "routing_agent sys" issue "memory_bank sys" e]
      process_query_tool_log [of p "support_agent sys" "''Escalated: '' @ issue" mb1 e1]
      process_query_tool_log [of p "escalation_agent sys" "''Escalation needed: '' @ issue" mb2 e2] h
    by simp
qed

text \<open>The router stage succeeds and the search of the support stage times out.\<close>

theorem escalation_fails_fast_witness:
  "fst (process_query flaky_platform (routing_agent example_system) ''Service down''
          (memory_bank example_system) env0)
     = Inr ''[Issue Router] Found response: Result for Service down''
   \<and> fst (handle_complex_escalation flaky_platform example_system ''Service down'' env0)
     = Inl (ToolFailure ''timeout'')
   \<and> tool_log (snd (snd (handle_complex_escalation flaky_platform example_system ''Service down'' env0)))
     = [SearchCall ''Service down'', SearchCall ''Escalated: Service down'']"
proof -
  let ?r = "process_query flaky_platform (routing_agent example_system) ''Service down''
              (memory_bank example_system) env0"
  let ?s = "process_query flaky_platform (support_agent example_system)
              (''Escalated: '' @ ''Service down'') (fst (snd ?r)) (snd (snd ?r))"
  have t0: "tool_search flaky_platform (tool_log env0) ''Service down''
              = Inr \<lparr>found = True, results = [''Result for Service down''], confidence = 85 / 100\<rparr>"
    by (simp add: flaky_platform_def stub_search_fails_after_def search_knowledge_base_def
        env0_def)
  have r: "fst ?r = Inr ''[Issue Router] Found response: Result for Service down''"
    by (simp add: process_query_found [OF t0] example_system_def
        CustomerSupportMultiAgentSystem_init_def Agent_init_def)
  have l: "tool_log (snd (snd ?r)) = [SearchCall ''Service down'']"
    by (simp add: process_query_tool_log env0_def)
  have t1: "tool_search flaky_platform (tool_log (snd (snd ?r))) (''Escalated: '' @ ''Service down'')
              = Inl (ToolFailure ''timeout'')"
    by (simp only: l) (simp add: flaky_platform_def stub_search_fails_after_def)
  have s: "fst ?s = Inl (ToolFailure ''timeout'')"
    by (simp only: process_query_tool_error [OF t1] fst_conv)
  have h1: "?r = (Inr ''[Issue Router] Found response: Result for Service down'',
                  fst (snd ?r), snd (snd ?r))"
    by (simp only: r [symmetric] prod.collapse)
  have h2: "?s = (Inl (ToolFailure ''timeout''), fst (snd ?s), snd (snd ?s))"
    by (simp only: s [symmetric] prod.collapse)
  have "handle_complex_escalation flaky_platform example_system ''Service down'' env0
          = (Inl (ToolFailure ''timeout''), example_system\<lparr>memory_bank := fst (snd ?s)\<rparr>, snd (snd ?s))
        \<and> tool_log (snd (snd ?s))
          = tool_log env0 @ [SearchCall ''Service down'', SearchCall (''Escalated: '' @ ''Service down'')]"
    using escalation_fails_fast [THEN conjunct2, THEN conjunct1, rule_format, OF conjI [OF h1 h2]] .
  then show ?thesis
    using r by (simp add: env0_def)
qed

text \<open>
  Claim C6: after any sequence of \<open>store_interaction\<close> calls on a new MemoryBank, of
  which \<open>N\<close> are for session \<open>s\<close>, retrieving with limit \<open>N\<close> returns the \<open>N\<close> entries of
  \<open>s\<close> in call order, and retrieving with \<open>0 < k < N\<close> returns the last \<open>k\<close> of them.
\<close>

theorem retrieve_after_stores:
  "retrieve_session_memory (store_interactions MemoryBank_init calls) s
       (int (length (stored_for s calls))) = stored_for s calls
   \<and> (\<forall>k. 0 < k \<and> k < int (length (stored_for s calls)) \<longrightarrow>
         retrieve_session_memory (store_interactions MemoryBank_init calls) s k
           = drop (length (stored_for s calls) - nat k) (stored_for s calls)
         \<and> length (retrieve_session_memory (store_interactions MemoryBank_init calls) s k) = nat k)"
proof -
  let ?xs = "stored_for s calls"
  have e: "entries (store_interactions MemoryBank_init calls) s = ?xs"
    by (simp add: entries_store_interactions entries_init)
  have full: "slice_from ?xs (- int (length ?xs)) = ?xs"
    by (cases "?xs = []") (simp_all add: slice_from_Nil slice_from_neg)
  show ?thesis
    using full by (auto simp: retrieve_entries e slice_from_neg)
qed

theorem retrieve_after_stores_witness:
  "0 < (1::int) \<and> 1 < int (length (stored_for ''s'' two_calls))
   \<and> retrieve_session_memory (store_interactions MemoryBank_init two_calls) ''s'' 2
     = [[''query'' \<mapsto> PStr ''hello'', ''timestamp'' \<mapsto> PStr ''T1''],
        [''response'' \<mapsto> PStr ''hi'', ''timestamp'' \<mapsto> PStr ''T2'']]
   \<and> retrieve_session_memory (store_interactions MemoryBank_init two_calls) ''s'' 1
     = [[''response'' \<mapsto> PStr ''hi'', ''timestamp'' \<mapsto> PStr ''T2'']]"
  using retrieve_after_stores [of two_calls "''s''"]
  by (simp add: two_calls_def)

text \<open>
  Claim C7: for a session that the MemoryBank does not hold, \<open>retrieve_session_memory\<close>
  returns the empty list (it has no error result) and \<open>compact_context\<close> returns the empty
  mapping, not an error.
\<close>

theorem unknown_session_is_empty:
  "memory_store mb s = None \<Longrightarrow>
     retrieve_session_memory mb s limit = [] \<and> compact_context mb s = Inr Map.empty"
  by (simp add: compact_context_def retrieve_session_memory_def)

theorem unknown_session_is_empty_witness:
  "retrieve_session_memory (store_interactions MemoryBank_init two_calls) ''other'' 5 = []
   \<and> compact_context (store_interactions MemoryBank_init two_calls) ''other'' = Inr Map.empty"
  using unknown_session_is_empty [of "store_interactions MemoryBank_init two_calls" "''other''" 5]
  by (simp add: two_calls_def store_interaction_def MemoryBank_init_def)

text \<open>
  Claim C8: \<open>pause_session\<close> followed by \<open>resume_session\<close> leaves the system and its
  three agents ACTIVE and changes nothing but the four SessionState fields; the MemoryBank
  is the same after either call.
\<close>

theorem pause_resume_restores_active:
  "resume_session (pause_session sys) =
     sys\<lparr>state := ACTIVE,
         routing_agent := (routing_agent sys)\<lparr>agent_state := ACTIVE\<rparr>,
         support_agent := (support_agent sys)\<lparr>agent_state := ACTIVE\<rparr>,
         escalation_agent := (escalation_agent sys)\<lparr>agent_state := ACTIVE\<rparr>\<rparr>
   \<and> state (resume_session (pause_session sys)) = ACTIVE
   \<and> agent_state (routing_agent (resume_session (pause_session sys))) = ACTIVE
   \<and> agent_state (support_agent (resume_session (pause_session sys))) = ACTIVE
   \<and> agent_state (escalation_agent (resume_session (pause_session sys))) = ACTIVE
   \<and> memory_bank (pause_session sys) = memory_bank sys
   \<and> memory_bank (resume_session (pause_session sys)) = memory_bank sys"
  by (simp add: resume_session_def pause_session_def resume_execution_def pause_execution_def
      Let_def)

text \<open>
  Claim C9: with a search tool that always returns
  \<^verbatim>\<open>{found: true, results: ["KB#1"], confidence: 0.85}\<close>, a newly constructed system
  answers "billing issue" with the two responses below, on any clock and schedule.
\<close>

theorem kb1_scenario:
  "routing_response (fst (process_customer_request (p\<lparr>tool_search := stub_search_kb1\<rparr>)
       (CustomerSupportMultiAgentSystem_init sid rid suid eid) ''billing issue'' e))
     = Inr ''[Issue Router] Found response: KB#1''
   \<and> support_response (fst (process_customer_request (p\<lparr>tool_search := stub_search_kb1\<rparr>)
       (CustomerSupportMultiAgentSystem_init sid rid suid eid) ''billing issue'' e))
     = Inr ''[Technical Support] Found response: KB#1''"
  by (simp add: process_customer_request_def gather_values split_beta
      process_query_def process_query_to_await_def after_await_value
      datetime_now_isoformat_def Let_def stub_search_kb1_def
      CustomerSupportMultiAgentSystem_init_def Agent_init_def)

text \<open>
  Claim C10: when the search tool returns a result whose \<open>results\<close> list is empty,
  \<open>process_query\<close> raises IndexError, and the query interaction is already appended to
  the agent's session; no response interaction is stored.
\<close>

theorem empty_results_raise_after_store:
  "tool_search p (tool_log e) q = Inr r \<Longrightarrow> results r = [] \<Longrightarrow>
     process_query p a q mb e =
       (Inl IndexError,
        store_interaction mb (agent_session_id a)
          [''agent'' \<mapsto> PStr (agent_id a), ''query'' \<mapsto> PStr q, ''role'' \<mapsto> PStr (role a)]
          (now_iso p (clock e)),
        e\<lparr>clock := Suc (clock e), tool_log := tool_log e @ [SearchCall q]\<rparr>)
     \<and> entries (fst (snd (process_query p a q mb e))) (agent_session_id a) =
         entries mb (agent_session_id a)
         @ [[''agent'' \<mapsto> PStr (agent_id a), ''query'' \<mapsto> PStr q, ''role'' \<mapsto> PStr (role a),
             ''timestamp'' \<mapsto> PStr (now_iso p (clock e))]]"
  by (simp add: process_query_no_results entries_store_interaction)

theorem empty_results_raise_after_store_witness:
  "fst (process_query not_found_platform (Agent_init ''router-001'' ''Issue Router'' ''sess-r'')
          ''refund'' MemoryBank_init env0) = Inl IndexError
   \<and> entries (fst (snd (process_query not_found_platform
          (Agent_init ''router-001'' ''Issue Router'' ''sess-r'') ''refund'' MemoryBank_init env0)))
        ''sess-r''
      = [[''agent'' \<mapsto> PStr ''router-001'', ''query'' \<mapsto> PStr ''refund'',
          ''role'' \<mapsto> PStr ''Issue Router'', ''timestamp'' \<mapsto> PStr ''T'']]"
  using empty_results_raise_after_store [of not_found_platform env0 "''refund''"
      "\<lparr>found = False, results = [], confidence = 0\<rparr>"
      "Agent_init ''router-001'' ''Issue Router'' ''sess-r''" MemoryBank_init]
  by (simp add: not_found_platform_def shipped_platform_def stub_search_not_found_def
      Agent_init_def entries_init entries_store_interaction example_now_def env0_def)

end
